theory Spec2Isabelle
  imports Complex_Main "HOL-Library.AList" "HOL-Library.Multiset" "HOL-Library.Sublist"
begin

section \<open>Tiercade prompt test results analyzer (analyze_test_results.py)\<close>

text \<open>
  A shallow embedding of \<^verbatim>\<open>src/analyze_test_results.py\<close>.

  Conventions of the model.
  \<^item> A JSON object with optional keys is a record of \<open>option\<close> fields: \<open>None\<close> is an
    absent key, and \<^verbatim>\<open>d.get(k, default)\<close> is \<open>get_or default\<close>. A key that is present
    holds a value of the type the report format gives it; a present key with a value of
    another JSON type is not an input of the model, with two exceptions where the code
    itself looks at the type: the top of a file (an object or not) and
    \<^verbatim>\<open>diagnostics.dupRate\<close> (any JSON scalar).
  \<^item> Integers are \<open>int\<close>. Every other number is an exact rational (\<open>rat\<close>): the
    rounding of Python's binary floating point, its infinities and its NaN are not part
    of the model.
  \<^item> A string is a \<open>char list\<close>, one \<open>char\<close> per character of the text; the pictographs
    of the fixed template text are written as their UTF-8 bytes.
  \<^item> An exception is a value of \<open>pyexn\<close>; a computation that can raise returns
    \<open>pyexn + 'a\<close>.
  \<^item> A dictionary whose iteration order matters is an association list in insertion
    order.
  \<^item> Reading the directory, loading a file, the clock and writing the output file are
    the surroundings of the program: what they give is an argument of the model.
\<close>

subsection \<open>Exceptions\<close>

datatype pyexn =
    OSError string
  | JSONDecodeError string
  | AttributeError string
  | TypeError string
  | KeyError string
  | IndexError string

text \<open>\<^verbatim>\<open>str(e)\<close>: the message; a \<^verbatim>\<open>KeyError\<close> prints the repr of its key.\<close>

fun str_exn :: "pyexn \<Rightarrow> string" where
  "str_exn (OSError m) = m"
| "str_exn (JSONDecodeError m) = m"
| "str_exn (AttributeError m) = m"
| "str_exn (TypeError m) = m"
| "str_exn (KeyError k) = [CHR 0x27] @ k @ [CHR 0x27]"
| "str_exn (IndexError m) = m"

subsection \<open>Formatting of numbers and strings\<close>

definition digit_char :: "nat \<Rightarrow> char" where
  "digit_char d = ''0123456789'' ! d"

fun str_nat :: "nat \<Rightarrow> string" where
  "str_nat n = (if n < 10 then [digit_char n] else str_nat (n div 10) @ [digit_char (n mod 10)])"

declare str_nat.simps [simp del]

text \<open>\<^verbatim>\<open>str(i)\<close> and \<^verbatim>\<open>f"{i}"\<close> of an integer.\<close>

definition str_int :: "int \<Rightarrow> string" where
  "str_int i = (if i < 0 then ''-'' @ str_nat (nat (- i)) else str_nat (nat i))"

text \<open>\<^verbatim>\<open>f"{i:,}"\<close>: groups of three digits from the right.\<close>

fun commas_rev :: "string \<Rightarrow> string" where
  "commas_rev (a # b # c # d # ds) = a # b # c # CHR '','' # commas_rev (d # ds)"
| "commas_rev ds = ds"

definition fmt_thousands :: "int \<Rightarrow> string" where
  "fmt_thousands i =
     (if i < 0 then ''-'' else '''') @ rev (commas_rev (rev (str_nat (nat \<bar>i\<bar>))))"

text \<open>
  \<^verbatim>\<open>f"{x:.df}"\<close> on an exact number: the nearest decimal with \<open>d\<close> fractional digits,
  a tie going to the even neighbour.
\<close>

definition round_half_even :: "rat \<Rightarrow> int" where
  "round_half_even r =
     (let f = \<lfloor>r\<rfloor>; t = r - of_int f
      in if t < 1 / 2 then f else if 1 / 2 < t then f + 1 else if even f then f else f + 1)"

definition fmt_fixed :: "nat \<Rightarrow> rat \<Rightarrow> string" where
  "fmt_fixed d x =
     (let m = nat (round_half_even (\<bar>x\<bar> * 10 ^ d));
          ip = str_nat (m div 10 ^ d);
          fp = str_nat (m mod 10 ^ d)
      in (if x < 0 then ''-'' else '''') @ ip @
         (if d = 0 then '''' else ''.'' @ replicate (d - length fp) (CHR ''0'') @ fp))"

text \<open>\<^verbatim>\<open>f"{s:<30}"\<close> and \<^verbatim>\<open>f"{s:>6}"\<close>: padding with spaces, never truncating.\<close>

definition ljust :: "nat \<Rightarrow> string \<Rightarrow> string" where
  "ljust w s = s @ replicate (w - length s) (CHR '' '')"

definition rjust :: "nat \<Rightarrow> string \<Rightarrow> string" where
  "rjust w s = replicate (w - length s) (CHR '' '') @ s"

text \<open>\<^verbatim>\<open>sep.join(xs)\<close>.\<close>

fun join :: "string \<Rightarrow> string list \<Rightarrow> string" where
  "join sep [] = []"
| "join sep [x] = x"
| "join sep (x # y # ys) = x @ sep @ join sep (y # ys)"

definition nl :: string where
  "nl = [CHR 0x0A]"

text \<open>\<^verbatim>\<open>str(x)\<close> of an optional string: an absent one is Python's \<^verbatim>\<open>None\<close>.\<close>

definition str_opt :: "string option \<Rightarrow> string" where
  "str_opt s = (case s of None \<Rightarrow> ''None'' | Some t \<Rightarrow> t)"

text \<open>\<^verbatim>\<open>sum(...)\<close>: a left fold from 0.\<close>

definition py_sum :: "'a::monoid_add list \<Rightarrow> 'a" where
  "py_sum xs = foldl (+) 0 xs"

text \<open>
  \<^verbatim>\<open>list.sort(key=f)\<close> and \<^verbatim>\<open>sorted(xs, key=f)\<close> are stable; with \<^verbatim>\<open>reverse=True\<close>
  the order is descending and elements with equal keys still keep their original order.
\<close>

definition py_sorted :: "('a \<Rightarrow> rat) \<Rightarrow> 'a list \<Rightarrow> 'a list" where
  "py_sorted f xs = sort_key f xs"

definition py_sorted_reverse :: "('a \<Rightarrow> rat) \<Rightarrow> 'a list \<Rightarrow> 'a list" where
  "py_sorted_reverse f xs = sort_key (\<lambda>x. - f x) xs"

subsection \<open>The raw suite report\<close>

record scored_entry =
  se_promptName :: "string option"
  se_score :: "rat option"

record raw_rankings =
  byPassRate :: "scored_entry list option"
  byQuality :: "scored_entry list option"
  bySpeed :: "scored_entry list option"
  byConsistency :: "scored_entry list option"

record raw_stats =
  passAtNRate :: "rat option"
  meanDupRate :: "rat option"
  stdevDupRate :: "rat option"
  jsonStrictRate :: "rat option"
  insufficientRate :: "rat option"
  formatErrorRate :: "rat option"
  meanQualityScore :: "rat option"

record raw_aggregate =
  promptId :: "string option"
  promptName :: "string option"
  overallStats :: "raw_stats option"
  agg_totalRuns :: "int option"

datatype env_value = EnvStr string | EnvBool bool

type_synonym env = "(string \<times> env_value) list"

record raw_suite_report =
  totalRuns :: "int option"
  successfulRuns :: "int option"
  failedRuns :: "int option"
  totalDuration :: "rat option"
  rankings :: "raw_rankings option"
  aggregateResults :: "raw_aggregate list option"
  environment :: "env option"
  suiteName :: "string option"

subsection \<open>The suite analysis\<close>

record prompt_stats =
  ps_promptId :: "string option"
  ps_promptName :: "string option"
  ps_passAtNRate :: rat
  ps_meanDupRate :: rat
  ps_stdevDupRate :: rat
  ps_jsonStrictRate :: rat
  ps_insufficientRate :: rat
  ps_formatErrorRate :: rat
  ps_meanQualityScore :: rat
  ps_totalRuns :: int

record top_prompts_rec =
  top_byPassRate :: "scored_entry list"
  top_byQuality :: "scored_entry list"
  top_bySpeed :: "scored_entry list"
  top_byConsistency :: "scored_entry list"

record suite_analysis =
  suite_id :: string
  suite_name :: string
  total_runs :: int
  successful_runs :: int
  failed_runs :: int
  success_rate :: rat
  total_duration :: rat
  avg_duration_per_run :: rat
  top_prompts :: top_prompts_rec
  prompt_analysis :: "prompt_stats list"
  sa_environment :: env

text \<open>\<^verbatim>\<open>d.get(k, default)\<close> on an optional field.\<close>

definition get_or :: "'a \<Rightarrow> 'a option \<Rightarrow> 'a" where
  "get_or d v = (case v of None \<Rightarrow> d | Some x \<Rightarrow> x)"

text \<open>The empty \<^verbatim>\<open>overallStats\<close> and \<^verbatim>\<open>rankings\<close> dictionaries.\<close>

definition no_stats :: raw_stats where
  "no_stats = \<lparr>passAtNRate = None, meanDupRate = None, stdevDupRate = None,
     jsonStrictRate = None, insufficientRate = None, formatErrorRate = None,
     meanQualityScore = None\<rparr>"

definition no_rankings :: raw_rankings where
  "no_rankings = \<lparr>byPassRate = None, byQuality = None, bySpeed = None, byConsistency = None\<rparr>"

text \<open>The body of the loop over \<^verbatim>\<open>aggregateResults\<close> (lines 43 to 55).\<close>

definition prompt_row :: "raw_aggregate \<Rightarrow> prompt_stats" where
  "prompt_row agg =
     (let stats = get_or no_stats (overallStats agg)
      in \<lparr>ps_promptId = promptId agg,
          ps_promptName = promptName agg,
          ps_passAtNRate = get_or 0 (passAtNRate stats) * 100,
          ps_meanDupRate = get_or 0 (meanDupRate stats) * 100,
          ps_stdevDupRate = get_or 0 (stdevDupRate stats) * 100,
          ps_jsonStrictRate = get_or 0 (jsonStrictRate stats) * 100,
          ps_insufficientRate = get_or 0 (insufficientRate stats) * 100,
          ps_formatErrorRate = get_or 0 (formatErrorRate stats) * 100,
          ps_meanQualityScore = get_or 0 (meanQualityScore stats),
          ps_totalRuns = get_or 0 (agg_totalRuns agg)\<rparr>)"

definition analyze_suite :: "string \<Rightarrow> raw_suite_report \<Rightarrow> suite_analysis" where
  "analyze_suite sid report =
     (let total_runs' = get_or 0 (totalRuns report);
          successful_runs' = get_or 0 (successfulRuns report);
          failed_runs' = get_or 0 (failedRuns report);
          total_duration' = get_or 0 (totalDuration report);
          success_rate' = (of_int successful_runs' / of_int (max 1 total_runs')) * 100;
          avg_duration = total_duration' / of_int (max 1 total_runs');
          rankings' = get_or no_rankings (rankings report);
          top = \<lparr>top_byPassRate = take 3 (get_or [] (byPassRate rankings')),
                 top_byQuality = take 3 (get_or [] (byQuality rankings')),
                 top_bySpeed = take 3 (get_or [] (bySpeed rankings')),
                 top_byConsistency = take 3 (get_or [] (byConsistency rankings'))\<rparr>;
          aggregates = get_or [] (aggregateResults report);
          rows = map prompt_row aggregates
      in \<lparr>suite_id = sid,
          suite_name = get_or sid (suiteName report),
          total_runs = total_runs',
          successful_runs = successful_runs',
          failed_runs = failed_runs',
          success_rate = success_rate',
          total_duration = total_duration',
          avg_duration_per_run = avg_duration,
          top_prompts = top,
          prompt_analysis = py_sorted_reverse ps_passAtNRate rows,
          sa_environment = get_or [] (environment report)\<rparr>)"

subsection \<open>The report renderer\<close>

text \<open>Running fallible steps in order: the first exception ends the run.\<close>

fun collect :: "('a \<Rightarrow> pyexn + 'b) \<Rightarrow> 'a list \<Rightarrow> pyexn + 'b list" where
  "collect f [] = Inr []"
| "collect f (x # xs) =
     (case f x of
        Inl e \<Rightarrow> Inl e
      | Inr y \<Rightarrow> (case collect f xs of Inl e \<Rightarrow> Inl e | Inr ys \<Rightarrow> Inr (y # ys)))"

text \<open>\<^verbatim>\<open>enumerate(xs, 1)\<close>.\<close>

definition enumerate1 :: "'a list \<Rightarrow> (nat \<times> 'a) list" where
  "enumerate1 xs = zip [1..<Suc (length xs)] xs"

definition header_lines :: "string \<Rightarrow> string list" where
  "header_lines now =
     [''# Detailed AI Prompt Test Analysis'',
      '''',
      ''**Generated:** '' @ now,
      '''',
      ''---'',
      '''',
      ''## Executive Summary'',
      '''']"

definition total_tests_of :: "suite_analysis list \<Rightarrow> int" where
  "total_tests_of analyses = py_sum (map total_runs analyses)"

definition total_passed_of :: "suite_analysis list \<Rightarrow> int" where
  "total_passed_of analyses = py_sum (map successful_runs analyses)"

definition total_failed_of :: "suite_analysis list \<Rightarrow> int" where
  "total_failed_of analyses = py_sum (map failed_runs analyses)"

definition total_time_of :: "suite_analysis list \<Rightarrow> rat" where
  "total_time_of analyses = py_sum (map total_duration analyses)"

definition overall_rate_of :: "suite_analysis list \<Rightarrow> rat" where
  "overall_rate_of analyses =
     (of_int (total_passed_of analyses) / of_int (max 1 (total_tests_of analyses))) * 100"

definition summary_lines :: "suite_analysis list \<Rightarrow> string list" where
  "summary_lines analyses =
     (let total_tests = total_tests_of analyses;
          overall_rate = overall_rate_of analyses;
          total_time = total_time_of analyses
      in [''- **Total Test Runs Across All Suites:** '' @ fmt_thousands total_tests,
          ''- **Overall Success Rate:** '' @ fmt_fixed 1 overall_rate @ ''%'',
          ''- **Total Test Duration:** '' @ fmt_fixed 1 total_time @ ''s ('' @
             fmt_fixed 1 (total_time / 60) @ '' minutes)'',
          ''- **Average Time Per Test:** '' @
             fmt_fixed 2 (total_time / of_int (max 1 total_tests)) @ ''s'',
          '''',
          ''### Suite Performance Comparison'',
          '''',
          ''| Suite | Runs | Success Rate | Duration | Avg/Run |'',
          ''|-------|------|--------------|----------|---------|''])"

definition comparison_row :: "suite_analysis \<Rightarrow> string" where
  "comparison_row analysis =
     ''| '' @ suite_name analysis @ '' | '' @ str_int (total_runs analysis) @ '' | '' @
     fmt_fixed 1 (success_rate analysis) @ ''% | '' @
     fmt_fixed 1 (total_duration analysis) @ ''s | '' @
     fmt_fixed 2 (avg_duration_per_run analysis) @ ''s |''"

definition metrics_lines :: "suite_analysis \<Rightarrow> string list" where
  "metrics_lines analysis =
     [''### '' @ suite_name analysis,
      '''',
      ''**Suite ID:** `'' @ suite_id analysis @ ''`'',
      '''',
      ''#### Performance Metrics'',
      '''',
      ''- **Total Runs:** '' @ str_int (total_runs analysis),
      ''- **Successful:** '' @ str_int (successful_runs analysis) @ '' ('' @
         fmt_fixed 1 (success_rate analysis) @ ''%)'',
      ''- **Failed:** '' @ str_int (failed_runs analysis),
      ''- **Total Duration:** '' @ fmt_fixed 1 (total_duration analysis) @ ''s'',
      ''- **Average Duration/Run:** '' @ fmt_fixed 2 (avg_duration_per_run analysis) @ ''s'',
      '''']"

fun str_env :: "env_value \<Rightarrow> string" where
  "str_env (EnvStr s) = s"
| "str_env (EnvBool b) = (if b then ''True'' else ''False'')"

fun truthy_env :: "env_value option \<Rightarrow> bool" where
  "truthy_env None = False"
| "truthy_env (Some (EnvStr s)) = (s \<noteq> [])"
| "truthy_env (Some (EnvBool b)) = b"

definition env_get_str :: "env \<Rightarrow> string \<Rightarrow> string \<Rightarrow> string" where
  "env_get_str e k d = (case map_of e k of None \<Rightarrow> d | Some v \<Rightarrow> str_env v)"

definition env_lines :: "env \<Rightarrow> string list" where
  "env_lines e =
     (if e = [] then []
      else [''#### Test Environment'',
            '''',
            ''- **OS Version:** '' @ env_get_str e ''osVersion'' ''N/A'',
            ''- **Top-P Sampling:** '' @
               (if truthy_env (map_of e ''hasTopP'') then ''Available'' else ''Not Available''),
            ''- **Build Date:** '' @ env_get_str e ''buildDate'' ''N/A'',
            ''''])"

definition ranking_line :: "nat \<times> scored_entry \<Rightarrow> pyexn + string" where
  "ranking_line ip =
     (case se_promptName (snd ip) of
        None \<Rightarrow> Inl (KeyError ''promptName'')
      | Some n \<Rightarrow>
          (case se_score (snd ip) of
             None \<Rightarrow> Inl (KeyError ''score'')
           | Some s \<Rightarrow>
               Inr (str_nat (fst ip) @ ''. **'' @ n @ ''** - Score: '' @ fmt_fixed 3 s)))"

definition ranking_block :: "string \<Rightarrow> scored_entry list \<Rightarrow> pyexn + string list" where
  "ranking_block title entries =
     (if entries = [] then Inr []
      else (case collect ranking_line (enumerate1 entries) of
              Inl e \<Rightarrow> Inl e
            | Inr ls \<Rightarrow> Inr ([title, ''''] @ ls @ [''''])))"

definition trophy :: string where
  "trophy = [CHR 0xF0, CHR 0x9F, CHR 0x8F, CHR 0x86]"

definition star :: string where
  "star = [CHR 0xE2, CHR 0xAD, CHR 0x90]"

definition bolt :: string where
  "bolt = [CHR 0xE2, CHR 0x9A, CHR 0xA1]"

definition plus_minus :: string where
  "plus_minus = [CHR 0xC2, CHR 0xB1]"

definition prompt_table_row :: "prompt_stats \<Rightarrow> pyexn + string" where
  "prompt_table_row prompt =
     (case ps_promptName prompt of
        None \<Rightarrow>
          Inl (TypeError (CHR 0x27 # ''NoneType'' @ CHR 0x27 # '' object is not subscriptable''))
      | Some n \<Rightarrow>
          Inr (''| '' @ take 30 n @ '' | '' @
               fmt_fixed 1 (ps_passAtNRate prompt) @ ''% | '' @
               fmt_fixed 1 (ps_meanDupRate prompt) @ plus_minus @
               fmt_fixed 1 (ps_stdevDupRate prompt) @ ''% | '' @
               fmt_fixed 0 (ps_jsonStrictRate prompt) @ ''% | '' @
               fmt_fixed 3 (ps_meanQualityScore prompt) @ '' | '' @
               str_int (ps_totalRuns prompt) @ '' |''))"

definition prompt_table :: "prompt_stats list \<Rightarrow> pyexn + string list" where
  "prompt_table rows =
     (if rows = [] then Inr []
      else (case collect prompt_table_row (take 10 rows) of
              Inl e \<Rightarrow> Inl e
            | Inr ls \<Rightarrow>
                Inr ([''#### Detailed Prompt Analysis'',
                      '''',
                      ''| Prompt | Pass@N | Dup Rate | JSON | Quality | Runs |'',
                      ''|--------|--------|----------|------|---------|------|''] @ ls @ [''''])))"

text \<open>One pass of the loop over the analyses (lines 124 to 215).\<close>

definition suite_section :: "suite_analysis \<Rightarrow> pyexn + string list" where
  "suite_section analysis =
     (case collect id
        [Inr (metrics_lines analysis),
         Inr (env_lines (sa_environment analysis)),
         ranking_block (''#### '' @ trophy @ '' Top Prompts by Pass Rate'')
           (top_byPassRate (top_prompts analysis)),
         ranking_block (''#### '' @ star @ '' Top Prompts by Quality Score'')
           (top_byQuality (top_prompts analysis)),
         ranking_block (''#### '' @ bolt @ '' Top Prompts by Speed'')
           (top_bySpeed (top_prompts analysis)),
         prompt_table (prompt_analysis analysis)] of
        Inl e \<Rightarrow> Inl e
      | Inr blocks \<Rightarrow> Inr (concat blocks @ [''---'', '''']))"

subsection \<open>The cross-suite leaderboard\<close>

record lb_accum =
  lb_name :: "string option"
  lb_total_runs :: int
  lb_total_pass_rate :: rat
  lb_total_dup_rate :: rat
  lb_suite_count :: int

record lb_entry =
  le_name :: "string option"
  le_total_runs :: int
  le_total_pass_rate :: rat
  le_total_dup_rate :: rat
  le_suite_count :: int
  avg_pass_rate :: rat
  avg_dup_rate :: rat

text \<open>
  The body of the inner loop (lines 229 to 241): the dictionary \<^verbatim>\<open>all_prompts\<close> is an
  association list in insertion order; a new key goes to the end, an update stays in place.
\<close>

definition add_prompt ::
  "(string option \<times> lb_accum) list \<Rightarrow> prompt_stats \<Rightarrow> (string option \<times> lb_accum) list" where
  "add_prompt all_prompts prompt =
     (let pid = ps_promptId prompt;
          d = (case map_of all_prompts pid of
                 None \<Rightarrow> \<lparr>lb_name = ps_promptName prompt, lb_total_runs = 0,
                           lb_total_pass_rate = 0, lb_total_dup_rate = 0, lb_suite_count = 0\<rparr>
               | Some d0 \<Rightarrow> d0)
      in AList.update pid
           \<lparr>lb_name = lb_name d,
            lb_total_runs = lb_total_runs d + ps_totalRuns prompt,
            lb_total_pass_rate = lb_total_pass_rate d + ps_passAtNRate prompt,
            lb_total_dup_rate = lb_total_dup_rate d + ps_meanDupRate prompt,
            lb_suite_count = lb_suite_count d + 1\<rparr>
           all_prompts)"

definition accumulate_prompts :: "suite_analysis list \<Rightarrow> (string option \<times> lb_accum) list" where
  "accumulate_prompts analyses =
     foldl (\<lambda>all_prompts analysis. foldl add_prompt all_prompts (prompt_analysis analysis))
       [] analyses"

text \<open>The loop that adds the averages (lines 244 to 246).\<close>

definition with_averages :: "lb_accum \<Rightarrow> lb_entry" where
  "with_averages d =
     \<lparr>le_name = lb_name d,
      le_total_runs = lb_total_runs d,
      le_total_pass_rate = lb_total_pass_rate d,
      le_total_dup_rate = lb_total_dup_rate d,
      le_suite_count = lb_suite_count d,
      avg_pass_rate = lb_total_pass_rate d / of_int (lb_suite_count d),
      avg_dup_rate = lb_total_dup_rate d / of_int (lb_suite_count d)\<rparr>"

definition all_prompts_of :: "suite_analysis list \<Rightarrow> (string option \<times> lb_entry) list" where
  "all_prompts_of analyses =
     map (\<lambda>item. (fst item, with_averages (snd item))) (accumulate_prompts analyses)"

definition best_overall :: "suite_analysis list \<Rightarrow> (string option \<times> lb_entry) list" where
  "best_overall analyses =
     take 5 (py_sorted_reverse (\<lambda>x. avg_pass_rate (snd x)) (all_prompts_of analyses))"

definition worst_overall :: "suite_analysis list \<Rightarrow> (string option \<times> lb_entry) list" where
  "worst_overall analyses =
     take 3 (py_sorted (\<lambda>x. avg_pass_rate (snd x)) (all_prompts_of analyses))"

definition best_lines :: "nat \<times> string option \<times> lb_entry \<Rightarrow> string list" where
  "best_lines x =
     (let i = fst x; pid = fst (snd x); d = snd (snd x)
      in [str_nat i @ ''. **'' @ str_opt (le_name d) @ ''** (`'' @ str_opt pid @ ''`)'',
          ''   - Average Pass Rate: '' @ fmt_fixed 1 (avg_pass_rate d) @ ''%'',
          ''   - Average Dup Rate: '' @ fmt_fixed 1 (avg_dup_rate d) @ ''%'',
          ''   - Tested in '' @ str_int (le_suite_count d) @ '' suite(s)'',
          ''   - Total Runs: '' @ str_int (le_total_runs d),
          ''''])"

definition worst_lines :: "nat \<times> string option \<times> lb_entry \<Rightarrow> string list" where
  "worst_lines x =
     (let i = fst x; pid = fst (snd x); d = snd (snd x)
      in [str_nat i @ ''. **'' @ str_opt (le_name d) @ ''** (`'' @ str_opt pid @ ''`)'',
          ''   - Average Pass Rate: '' @ fmt_fixed 1 (avg_pass_rate d) @ ''%'',
          ''   - Consider revising or removing this prompt'',
          ''''])"

definition recommendation_lines :: "suite_analysis list \<Rightarrow> string list" where
  "recommendation_lines analyses =
     [''## Recommendations & Insights'',
      '''',
      ''### Best Performing Prompts Overall'',
      ''''] @
     concat (map best_lines (enumerate1 (best_overall analyses))) @
     [''### Areas for Improvement'',
      ''''] @
     concat (map worst_lines (enumerate1 (worst_overall analyses)))"

text \<open>
  \<^verbatim>\<open>generate_markdown_report\<close>; the first argument is what
  \<^verbatim>\<open>datetime.now().strftime('%Y-%m-%d %H:%M:%S')\<close> returns at the call, the second the
  directory, which the function never reads.
\<close>

definition report_lines :: "string \<Rightarrow> suite_analysis list \<Rightarrow> pyexn + string list" where
  "report_lines now analyses =
     (case collect suite_section analyses of
        Inl e \<Rightarrow> Inl e
      | Inr sections \<Rightarrow>
          Inr (header_lines now @
               summary_lines analyses @
               map comparison_row analyses @
               ['''', ''---'', '''', ''## Detailed Suite Analysis'', ''''] @
               concat sections @
               recommendation_lines analyses))"

definition generate_markdown_report ::
  "string \<Rightarrow> string \<Rightarrow> suite_analysis list \<Rightarrow> pyexn + string" where
  "generate_markdown_report now results_dir analyses =
     (case report_lines now analyses of
        Inl e \<Rightarrow> Inl e
      | Inr lines \<Rightarrow> Inr (join nl lines))"

subsection \<open>Coordinator experiment reports\<close>

text \<open>
  What \<^verbatim>\<open>json.load\<close> returns at the top of a file: an object of the expected schema,
  or a value of another Python type, named by that type (\<^verbatim>\<open>list\<close>, \<^verbatim>\<open>str\<close>, ...).
\<close>

datatype 'a json_top = TopObject 'a | TopOther string

definition no_get :: "string \<Rightarrow> pyexn" where
  "no_get ty =
     AttributeError (CHR 0x27 # ty @ CHR 0x27 # '' object has no attribute '' @
                     CHR 0x27 # ''get'' @ [CHR 0x27])"

text \<open>A JSON scalar, for the one field whose Python type the code tests at run time.\<close>

datatype jvalue = JNull | JBool bool | JInt int | JFloat rat | JStr string

record coord_run =
  scenarioId :: "string option"
  scenarioName :: "string option"
  passAtN :: "bool option"
  uniqueItems :: "int option"
  diagnostics :: "(string \<times> jvalue) list option"
  wouldEscalatePCC :: "bool option"

record coord_report =
  results :: "coord_run list option"
  scenarios :: "string list option"
  co_totalRuns :: "int option"
  co_successfulRuns :: "int option"

text \<open>The truth value of \<^verbatim>\<open>r.get(k)\<close> for a Boolean field.\<close>

definition truthy :: "bool option \<Rightarrow> bool" where
  "truthy b = (case b of None \<Rightarrow> False | Some v \<Rightarrow> v)"

text \<open>\<^verbatim>\<open>sum(1 for r in runs if c(r))\<close>.\<close>

definition py_count :: "('a \<Rightarrow> bool) \<Rightarrow> 'a list \<Rightarrow> int" where
  "py_count c runs = py_sum (map (\<lambda>r. 1) (filter c runs))"

text \<open>
  \<^verbatim>\<open>isinstance(val, (int, float))\<close>: \<^verbatim>\<open>bool\<close> is a subclass of \<^verbatim>\<open>int\<close> in Python, with
  \<^verbatim>\<open>True\<close> = 1 and \<^verbatim>\<open>False\<close> = 0.
\<close>

fun is_int_or_float :: "jvalue option \<Rightarrow> bool" where
  "is_int_or_float None = False"
| "is_int_or_float (Some JNull) = False"
| "is_int_or_float (Some (JBool b)) = True"
| "is_int_or_float (Some (JInt i)) = True"
| "is_int_or_float (Some (JFloat x)) = True"
| "is_int_or_float (Some (JStr s)) = False"

fun num_of :: "jvalue option \<Rightarrow> rat" where
  "num_of (Some (JBool b)) = (if b then 1 else 0)"
| "num_of (Some (JInt i)) = of_int i"
| "num_of (Some (JFloat x)) = x"
| "num_of v = 0"

text \<open>\<^verbatim>\<open>(r.get('diagnostics') or {}).get('dupRate')\<close>.\<close>

definition dup_rate_of :: "coord_run \<Rightarrow> jvalue option" where
  "dup_rate_of r = map_of (get_or [] (diagnostics r)) ''dupRate''"

definition dup_vals_of :: "coord_run list \<Rightarrow> rat list" where
  "dup_vals_of runs = map num_of (filter is_int_or_float (map dup_rate_of runs))"

text \<open>The grouping loop (lines 351 to 354).\<close>

definition group_run ::
  "(string \<times> coord_run list) list \<Rightarrow> coord_run \<Rightarrow> (string \<times> coord_run list) list" where
  "group_run by_scenario r =
     (let sid = get_or ''unknown'' (scenarioId r)
      in AList.update sid (get_or [] (map_of by_scenario sid) @ [r]) by_scenario)"

definition by_scenario_of :: "coord_run list \<Rightarrow> (string \<times> coord_run list) list" where
  "by_scenario_of rs = foldl group_run [] rs"

text \<open>The values computed for one scenario (lines 358 to 369).\<close>

record scenario_summary =
  sc_name :: string
  sc_n :: int
  sc_p :: int
  sc_avg_u :: rat
  sc_avg_dup :: rat
  sc_esc :: int

definition summarize_scenario :: "string \<Rightarrow> coord_run list \<Rightarrow> pyexn + scenario_summary" where
  "summarize_scenario sid runs =
     (case runs of
        [] \<Rightarrow> Inl (IndexError ''list index out of range'')
      | r0 # rest \<Rightarrow>
          (let n = int (length runs);
               dup_vals = dup_vals_of runs
           in Inr \<lparr>sc_name = get_or sid (scenarioName r0),
                   sc_n = n,
                   sc_p = py_count (\<lambda>r. truthy (passAtN r)) runs,
                   sc_avg_u = of_int (py_sum (map (\<lambda>r. get_or 0 (uniqueItems r)) runs)) /
                              of_int (max 1 n),
                   sc_avg_dup = (if dup_vals \<noteq> []
                                 then py_sum dup_vals / of_int (int (length dup_vals))
                                 else 0),
                   sc_esc = py_count (\<lambda>r. truthy (wouldEscalatePCC r)) runs\<rparr>))"

text \<open>The table row of one scenario (lines 370 and 371).\<close>

definition scenario_row :: "scenario_summary \<Rightarrow> string" where
  "scenario_row s =
     ''| '' @ take 24 (sc_name s) @ '' | '' @ str_int (sc_n s) @ '' | '' @
     str_int (sc_p s) @ '' | '' @ fmt_fixed 1 (sc_avg_u s) @ '' | '' @
     fmt_fixed 1 (sc_avg_dup s * 100) @ ''% | '' @ str_int (sc_esc s) @ '' |''"

text \<open>
  The rows appended so far stay in \<^verbatim>\<open>lines\<close> when a later one raises: the result is
  the exception, if any, and the rows before it.
\<close>

fun scenario_rows :: "(string \<times> coord_run list) list \<Rightarrow> pyexn option \<times> string list" where
  "scenario_rows [] = (None, [])"
| "scenario_rows (g # gs) =
     (case summarize_scenario (fst g) (snd g) of
        Inl e \<Rightarrow> (Some e, [])
      | Inr s \<Rightarrow> (fst (scenario_rows gs), scenario_row s # snd (scenario_rows gs)))"

definition error_stub :: "string \<Rightarrow> pyexn \<Rightarrow> string list" where
  "error_stub name e =
     [''### '' @ name, '''', ''(error parsing report: '' @ str_exn e @ '')'', '''']"

text \<open>One pass of the loop over the coordinator files (lines 335 to 374).\<close>

definition coord_file_lines :: "string \<times> (pyexn + coord_report json_top) \<Rightarrow> string list" where
  "coord_file_lines f =
     (case snd f of
        Inl e \<Rightarrow> error_stub (fst f) e
      | Inr (TopOther ty) \<Rightarrow> error_stub (fst f) (no_get ty)
      | Inr (TopObject d) \<Rightarrow>
          (let results' = get_or [] (results d);
               scenarios' = get_or [] (scenarios d);
               total_runs' = get_or (int (length results')) (co_totalRuns d);
               success = get_or (py_count (\<lambda>r. truthy (passAtN r)) results') (co_successfulRuns d);
               rows = scenario_rows (by_scenario_of results')
           in [''### '' @ fst f,
               '''',
               ''- **Scenarios:** '' @
                  (if scenarios' \<noteq> [] then join '', '' scenarios' else ''n/a''),
               ''- **Runs:** '' @ str_int total_runs',
               ''- **Successful:** '' @ str_int success,
               '''',
               ''| Scenario | Runs | Pass | Avg Unique | Avg DupRate | Escalate |'',
               ''|---------|------|------|------------|-------------|----------|''] @
              snd rows @
              (case fst rows of None \<Rightarrow> [''''] | Some e \<Rightarrow> error_stub (fst f) e)))"

definition coordinator_appendix :: "(string \<times> (pyexn + coord_report json_top)) list \<Rightarrow> string" where
  "coordinator_appendix files =
     (if files = [] then []
      else nl @ join nl ([nl @ ''---'' @ nl, ''## Coordinator Experiments (Appendix)'', nl] @
                         concat (map coord_file_lines files)))"

subsection \<open>The command line program\<close>

text \<open>
  What the run reads from its surroundings: the number of command line words, the
  directory as \<^verbatim>\<open>str(results_dir)\<close> and whether it exists, the sorted
  \<^verbatim>\<open>*_report.json\<close> files (each as its stem and what \<^verbatim>\<open>load_report\<close> does on it: the
  exception it raises or the value it returns), the coordinator files (name and load
  result), the clock, and \<^verbatim>\<open>str(results_dir / "01_DETAILED_ANALYSIS.md")\<close>.
\<close>

record invocation =
  argc :: nat
  results_dir :: string
  dir_exists :: bool
  report_files :: "(string \<times> (pyexn + raw_suite_report json_top)) list"
  coord_files :: "(string \<times> (pyexn + coord_report json_top)) list"
  clock :: string
  output_path :: string

datatype outcome = Exit int | Uncaught pyexn

text \<open>
  What the run leaves: the lines printed, the text written to the output file (if the
  run got that far), and how the process ended.
\<close>

record run =
  console :: "string list"
  written :: "string option"
  exit_status :: outcome

text \<open>\<^verbatim>\<open>stem.replace('_report', '')\<close>: every occurrence goes, left to right.\<close>

fun replace_report :: "string \<Rightarrow> string" where
  "replace_report [] = []"
| "replace_report (c # cs) =
     (if take 7 (c # cs) = ''_report'' then replace_report (drop 6 cs)
      else c # replace_report cs)"

definition check_mark :: string where
  "check_mark = [CHR 0xE2, CHR 0x9C, CHR 0x85]"

definition cross_mark :: string where
  "cross_mark = [CHR 0xE2, CHR 0x9D, CHR 0x8C]"

definition warning_sign :: string where
  "warning_sign = [CHR 0xE2, CHR 0x9A, CHR 0xA0, CHR 0xEF, CHR 0xB8, CHR 0x8F]"

text \<open>The body of the \<^verbatim>\<open>try\<close> block (lines 314 and 315).\<close>

definition try_analyze ::
  "string \<Rightarrow> pyexn + raw_suite_report json_top \<Rightarrow> pyexn + suite_analysis" where
  "try_analyze sid loaded =
     (case loaded of
        Inl e \<Rightarrow> Inl e
      | Inr (TopOther ty) \<Rightarrow> Inl (no_get ty)
      | Inr (TopObject report) \<Rightarrow> Inr (analyze_suite sid report))"

text \<open>One pass of the loop over the report files (lines 309 to 319).\<close>

definition analyze_step ::
  "suite_analysis list \<times> string list \<Rightarrow> string \<times> (pyexn + raw_suite_report json_top) \<Rightarrow>
   suite_analysis list \<times> string list" where
  "analyze_step st f =
     (let sid = replace_report (fst f);
          out = snd st @ [''Analyzing '' @ sid @ ''...'']
      in case try_analyze sid (snd f) of
           Inr analysis \<Rightarrow>
             (fst st @ [analysis],
              out @ [''  '' @ check_mark @ '' Success rate: '' @
                     fmt_fixed 1 (success_rate analysis) @ ''%''])
         | Inl e \<Rightarrow> (fst st, out @ [''  '' @ cross_mark @ '' Error: '' @ str_exn e]))"

definition status_line :: "suite_analysis \<Rightarrow> string" where
  "status_line analysis =
     (let status = (if 80 \<le> success_rate analysis then check_mark
                    else if 60 \<le> success_rate analysis then warning_sign
                    else cross_mark)
      in ''  '' @ status @ '' '' @ ljust 30 (suite_name analysis) @ '' '' @
         rjust 6 (fmt_fixed 1 (success_rate analysis)) @ ''%'')"

definition final_prints :: "string \<Rightarrow> suite_analysis list \<Rightarrow> string list" where
  "final_prints path analyses =
     [check_mark @ '' Detailed analysis saved to: '' @ path,
      '''',
      replicate 70 (CHR ''=''),
      ''ANALYSIS SUMMARY'',
      replicate 70 (CHR ''=''),
      '''',
      ''Total Tests: '' @ fmt_thousands (total_tests_of analyses),
      ''Overall Success Rate: '' @ fmt_fixed 1 (overall_rate_of analyses) @ ''%'',
      '''',
      ''Suite Performance:''] @
     map status_line analyses @
     ['''']"

definition main :: "invocation \<Rightarrow> run" where
  "main cmd =
     (if argc cmd < 2 then
        \<lparr>console = [''Usage: analyze_test_results.py <results_directory>''],
         written = None, exit_status = Exit 1\<rparr>
      else if \<not> dir_exists cmd then
        \<lparr>console = [''Error: Directory not found: '' @ results_dir cmd],
         written = None, exit_status = Exit 1\<rparr>
      else if report_files cmd = [] then
        \<lparr>console = [''Error: No report files found in '' @ results_dir cmd],
         written = None, exit_status = Exit 1\<rparr>
      else
        (let st = foldl analyze_step
                    ([], [''Found '' @ str_nat (length (report_files cmd)) @
                          '' unified test reports'', ''''])
                    (report_files cmd);
             analyses = fst st;
             out = snd st @ ['''', ''Generating detailed analysis report...'']
         in case generate_markdown_report (clock cmd) (results_dir cmd) analyses of
              Inl e \<Rightarrow> \<lparr>console = out, written = None, exit_status = Uncaught e\<rparr>
            | Inr markdown_report \<Rightarrow>
                \<lparr>console = out @ final_prints (output_path cmd) analyses,
                 written = Some (markdown_report @ coordinator_appendix (coord_files cmd)),
                 exit_status = Exit 0\<rparr>))"

subsection \<open>Example inputs\<close>


definition report_10_7 :: raw_suite_report where
  "report_10_7 =
     \<lparr>totalRuns = Some 10, successfulRuns = Some 7, failedRuns = Some 3,
      totalDuration = Some 50, rankings = None, aggregateResults = None, environment = None,
      suiteName = None\<rparr>"

text \<open>A prompt aggregate with a pass rate, and a suite report with given aggregates.\<close>

definition agg_row :: "string option \<Rightarrow> string option \<Rightarrow> rat \<Rightarrow> raw_aggregate" where
  "agg_row pid name rate =
     \<lparr>promptId = pid, promptName = name,
      overallStats = Some (no_stats\<lparr>passAtNRate := Some rate\<rparr>),
      agg_totalRuns = Some 10\<rparr>"

definition report_with :: "raw_aggregate list \<Rightarrow> raw_suite_report" where
  "report_with aggs =
     \<lparr>totalRuns = Some 10, successfulRuns = Some 7, failedRuns = Some 3,
      totalDuration = Some 50, rankings = None, aggregateResults = Some aggs,
      environment = None, suiteName = None\<rparr>"

text \<open>Prompt p1 with pass rate 0.8 in suite A and 0.6 in suite B.\<close>

definition suites_p1 :: "suite_analysis list" where
  "suites_p1 =
     [analyze_suite ''A'' (report_with [agg_row (Some ''p1'') (Some ''Prompt One'') (4 / 5)]),
      analyze_suite ''B'' (report_with [agg_row (Some ''p1'') (Some ''Prompt One'') (3 / 5)])]"

text \<open>Two unrelated prompts without an id, in two suites.\<close>

definition suites_idless :: "suite_analysis list" where
  "suites_idless =
     [analyze_suite ''A'' (report_with [agg_row None (Some ''alpha'') (9 / 10)]),
      analyze_suite ''B'' (report_with [agg_row None (Some ''beta'') (1 / 2)])]"

text \<open>
  Three prompts in two suites: p2 averages 90, p1 and p3 both average 70, and p1 is
  seen before p3.
\<close>

definition suites_ties :: "suite_analysis list" where
  "suites_ties =
     [analyze_suite ''X'' (report_with [agg_row (Some ''p1'') (Some ''one'') (1 / 2),
                                        agg_row (Some ''p2'') (Some ''two'') (9 / 10)]),
      analyze_suite ''Y'' (report_with [agg_row (Some ''p3'') (Some ''three'') (7 / 10),
                                        agg_row (Some ''p1'') (Some ''one'') (9 / 10)])]"



text \<open>A prompt aggregate with every rate present.\<close>

definition agg_full :: raw_aggregate where
  "agg_full =
     \<lparr>promptId = Some ''p1'', promptName = Some ''Prompt One'',
      overallStats = Some \<lparr>passAtNRate = Some (4 / 5), meanDupRate = Some (1 / 10),
                           stdevDupRate = Some (1 / 20), jsonStrictRate = Some (497 / 500),
                           insufficientRate = Some 0, formatErrorRate = Some 0,
                           meanQualityScore = Some (3 / 4)\<rparr>,
      agg_totalRuns = Some 10\<rparr>"

subsection \<open>Notions the properties are stated with\<close>

text \<open>
  The distinct elements of a list, each at the place of its first occurrence; the prompt
  rows of all suites in the order the aggregation loop visits them; those with one
  \<^verbatim>\<open>promptId\<close>; and the leaderboard entry that a non-empty list of rows with one id
  should give: the name of the first row, the sums, the number of rows, and the sums
  divided by that number.
\<close>

definition first_seen :: "'a list \<Rightarrow> 'a list" where
  "first_seen xs = rev (remdups (rev xs))"

definition rows_of :: "suite_analysis list \<Rightarrow> prompt_stats list" where
  "rows_of analyses = concat (map prompt_analysis analyses)"

definition rows_with :: "string option \<Rightarrow> suite_analysis list \<Rightarrow> prompt_stats list" where
  "rows_with pid analyses = filter (\<lambda>p. ps_promptId p = pid) (rows_of analyses)"

definition accum_of :: "prompt_stats list \<Rightarrow> lb_accum" where
  "accum_of m =
     \<lparr>lb_name = ps_promptName (hd m),
      lb_total_runs = sum_list (map ps_totalRuns m),
      lb_total_pass_rate = sum_list (map ps_passAtNRate m),
      lb_total_dup_rate = sum_list (map ps_meanDupRate m),
      lb_suite_count = int (length m)\<rparr>"

definition entry_of :: "prompt_stats list \<Rightarrow> lb_entry" where
  "entry_of m =
     \<lparr>le_name = ps_promptName (hd m),
      le_total_runs = sum_list (map ps_totalRuns m),
      le_total_pass_rate = sum_list (map ps_passAtNRate m),
      le_total_dup_rate = sum_list (map ps_meanDupRate m),
      le_suite_count = int (length m),
      avg_pass_rate = sum_list (map ps_passAtNRate m) / of_int (int (length m)),
      avg_dup_rate = sum_list (map ps_meanDupRate m) / of_int (int (length m))\<rparr>"



text \<open>
  What the \<^verbatim>\<open>try\<close> block does on one report file; the analyses of the files on which it
  succeeds, in input order; what one pass of the loop prints; what the run prints up to
  the rendering; and whether a text occurs in a string.
\<close>

definition outcome_of ::
  "string \<times> (pyexn + raw_suite_report json_top) \<Rightarrow> pyexn + suite_analysis" where
  "outcome_of f = try_analyze (replace_report (fst f)) (snd f)"

definition analysed ::
  "(string \<times> (pyexn + raw_suite_report json_top)) list \<Rightarrow> suite_analysis list" where
  "analysed files = concat (map (\<lambda>f. case outcome_of f of Inl e \<Rightarrow> [] | Inr a \<Rightarrow> [a]) files)"

definition step_prints :: "string \<times> (pyexn + raw_suite_report json_top) \<Rightarrow> string list" where
  "step_prints f =
     [''Analyzing '' @ replace_report (fst f) @ ''...'',
      (case outcome_of f of
         Inr a \<Rightarrow> ''  '' @ check_mark @ '' Success rate: '' @ fmt_fixed 1 (success_rate a) @ ''%''
       | Inl e \<Rightarrow> ''  '' @ cross_mark @ '' Error: '' @ str_exn e)]"

definition loop_prints ::
  "(string \<times> (pyexn + raw_suite_report json_top)) list \<Rightarrow> string list" where
  "loop_prints files =
     [''Found '' @ str_nat (length files) @ '' unified test reports'', ''''] @
     concat (map step_prints files) @
     ['''', ''Generating detailed analysis report...'']"

fun mentions :: "string \<Rightarrow> string \<Rightarrow> bool" where
  "mentions pat [] = (pat = [])"
| "mentions pat (c # cs) = (take (length pat) (c # cs) = pat \<or> mentions pat cs)"

subsection \<open>Example runs\<close>

text \<open>
  A run on three report files of which the second is not JSON, and the same run without
  that file.
\<close>

definition decode_error :: pyexn where
  "decode_error = JSONDecodeError ''Expecting value: line 1 column 1 (char 0)''"

definition run_with :: "(string \<times> (pyexn + raw_suite_report json_top)) list \<Rightarrow> invocation" where
  "run_with files =
     \<lparr>argc = 2, results_dir = ''results'', dir_exists = True, report_files = files,
      coord_files = [], clock = ''2025-01-01 12:00:00'',
      output_path = ''results/01_DETAILED_ANALYSIS.md''\<rparr>"

definition three_files :: "(string \<times> (pyexn + raw_suite_report json_top)) list" where
  "three_files =
     [(''alpha_report'', Inr (TopObject report_10_7)),
      (''beta_report'', Inl decode_error),
      (''gamma_report'', Inr (TopObject (report_with [agg_full])))]"

definition two_files :: "(string \<times> (pyexn + raw_suite_report json_top)) list" where
  "two_files =
     [(''alpha_report'', Inr (TopObject report_10_7)),
      (''gamma_report'', Inr (TopObject (report_with [agg_full])))]"

definition three_sections :: "string list list" where
  "three_sections =
     (case collect suite_section (analysed three_files) of Inl e \<Rightarrow> [] | Inr s \<Rightarrow> s)"

section \<open>Properties\<close>

subsection \<open>The success rate of a suite\<close>






subsection \<open>Totals under permutation of the suites\<close>






subsection \<open>The order of the prompt rows\<close>

lemma sorted_desc:
  "sorted_wrt (\<lambda>a b. f b \<le> f a) (py_sorted_reverse f xs)"
proof -
  have "sorted (map (\<lambda>x. - f x) (sort_key (\<lambda>x. - f x) xs))" by (rule sorted_sort_key)
  then show ?thesis by (simp add: py_sorted_reverse_def sorted_map)
qed

lemma stable_desc:
  "filter (\<lambda>y. f y = k) (py_sorted_reverse f xs) = filter (\<lambda>y. f y = k) xs"
proof -
  have "filter (\<lambda>y. - f y = - k) (sort_key (\<lambda>x. - f x) xs) = filter (\<lambda>y. - f y = - k) xs"
    by (rule sort_key_stable)
  then show ?thesis by (simp add: py_sorted_reverse_def)
qed

lemma mset_desc: "mset (py_sorted_reverse f xs) = mset xs"
  by (simp add: py_sorted_reverse_def)

lemma prompt_analysis_eq:
  "prompt_analysis (analyze_suite sid report) =
     py_sorted_reverse ps_passAtNRate (map prompt_row (get_or [] (aggregateResults report)))"
  by (simp add: analyze_suite_def Let_def)

text \<open>
  C5: the prompt rows of an analysis are the rows built from \<^verbatim>\<open>aggregateResults\<close>,
  rearranged (same rows, same multiplicities) into descending order of
  \<^verbatim>\<open>passAtNRate\<close>; the rows with any one rate \<open>k\<close> stand in the order they had in the
  input.
\<close>

theorem prompt_analysis_sorted_stable:
  "sorted_wrt (\<lambda>a b. ps_passAtNRate b \<le> ps_passAtNRate a)
     (prompt_analysis (analyze_suite sid report)) \<and>
   mset (prompt_analysis (analyze_suite sid report)) =
     mset (map prompt_row (get_or [] (aggregateResults report))) \<and>
   (\<forall>k. filter (\<lambda>p. ps_passAtNRate p = k) (prompt_analysis (analyze_suite sid report)) =
        filter (\<lambda>p. ps_passAtNRate p = k)
          (map prompt_row (get_or [] (aggregateResults report))))"
  unfolding prompt_analysis_eq
  by (simp only: sorted_desc stable_desc mset_desc simp_thms)

subsection \<open>The leaderboard\<close>

lemma foldl_nested:
  "foldl (\<lambda>acc a. foldl f acc (g a)) s xs = foldl f s (concat (map g xs))"
  by (induction xs arbitrary: s) simp_all

lemma accumulate_prompts_rows:
  "accumulate_prompts analyses = foldl add_prompt [] (rows_of analyses)"
  by (simp add: accumulate_prompts_def rows_of_def foldl_nested)

lemma map_of_add_prompt:
  "map_of (add_prompt acc r) pid =
     (if pid = ps_promptId r
      then Some (let d = (case map_of acc pid of
                            None \<Rightarrow> \<lparr>lb_name = ps_promptName r, lb_total_runs = 0,
                                      lb_total_pass_rate = 0, lb_total_dup_rate = 0,
                                      lb_suite_count = 0\<rparr>
                          | Some d0 \<Rightarrow> d0)
                 in \<lparr>lb_name = lb_name d,
                     lb_total_runs = lb_total_runs d + ps_totalRuns r,
                     lb_total_pass_rate = lb_total_pass_rate d + ps_passAtNRate r,
                     lb_total_dup_rate = lb_total_dup_rate d + ps_meanDupRate r,
                     lb_suite_count = lb_suite_count d + 1\<rparr>)
      else map_of acc pid)"
  by (simp add: add_prompt_def Let_def update_conv')

lemma map_of_foldl_add_prompt:
  "map_of (foldl add_prompt [] rs) pid =
     (if filter (\<lambda>p. ps_promptId p = pid) rs = [] then None
      else Some (accum_of (filter (\<lambda>p. ps_promptId p = pid) rs)))"
proof (induction rs rule: rev_induct)
  case Nil
  show ?case by simp
next
  case (snoc r rs)
  show ?case
  proof (cases "pid = ps_promptId r")
    case False
    then show ?thesis using snoc by (simp add: map_of_add_prompt)
  next
    case True
    show ?thesis
    proof (cases "filter (\<lambda>p. ps_promptId p = pid) rs = []")
      case e: True
      then show ?thesis using snoc True
        by (simp add: map_of_add_prompt accum_of_def)
    next
      case ne: False
      then show ?thesis using snoc True
        by (simp add: map_of_add_prompt accum_of_def Let_def)
    qed
  qed
qed

lemma keys_add_prompt:
  "map fst (add_prompt acc r) =
     (if ps_promptId r \<in> set (map fst acc) then map fst acc else map fst acc @ [ps_promptId r])"
  by (simp add: add_prompt_def Let_def update_keys)

lemma first_seen_snoc:
  "first_seen (xs @ [x]) = (if x \<in> set xs then first_seen xs else first_seen xs @ [x])"
  by (simp add: first_seen_def)

lemma set_first_seen: "set (first_seen xs) = set xs"
  by (simp add: first_seen_def)

lemma keys_foldl_add_prompt:
  "map fst (foldl add_prompt [] rs) = first_seen (map ps_promptId rs)"
proof (induction rs rule: rev_induct)
  case Nil
  show ?case by (simp add: first_seen_def)
next
  case (snoc r rs)
  show ?case
    by (simp only: foldl_append foldl.simps keys_add_prompt map_append list.map
          first_seen_snoc snoc set_first_seen)
qed

lemma distinct_first_seen: "distinct (first_seen xs)"
  by (simp add: first_seen_def)

lemma map_of_with_averages:
  "map_of (map (\<lambda>item. (fst item, with_averages (snd item))) al) k =
     map_option with_averages (map_of al k)"
  by (induction al) simp_all

lemma keys_with_averages:
  "map fst (map (\<lambda>item. (fst item, with_averages (snd item))) al) = map fst al"
  by (induction al) simp_all

lemma with_averages_accum: "with_averages (accum_of m) = entry_of m"
  by (simp add: with_averages_def accum_of_def entry_of_def)

lemma map_of_all_prompts:
  "map_of (all_prompts_of analyses) pid =
     (if rows_with pid analyses = [] then None else Some (entry_of (rows_with pid analyses)))"
  by (simp add: all_prompts_of_def map_of_with_averages accumulate_prompts_rows
        map_of_foldl_add_prompt rows_with_def with_averages_accum)

lemma keys_all_prompts:
  "map fst (all_prompts_of analyses) = first_seen (map ps_promptId (rows_of analyses))"
  by (simp only: all_prompts_of_def keys_with_averages accumulate_prompts_rows
        keys_foldl_add_prompt)

lemma distinct_all_prompts: "distinct (map fst (all_prompts_of analyses))"
  by (simp only: keys_all_prompts distinct_first_seen)

lemma filter_key_distinct:
  "distinct (map fst al) \<Longrightarrow>
   filter (\<lambda>x. fst x = k) al = (case map_of al k of None \<Rightarrow> [] | Some v \<Rightarrow> [(k, v)])"
proof (induction al)
  case Nil
  show ?case by simp
next
  case (Cons a al)
  obtain k' v' where a: "a = (k', v')" by (cases a)
  show ?case
  proof (cases "k' = k")
    case True
    then have "k \<notin> fst ` set al" using Cons.prems a by simp
    then have "filter (\<lambda>x. fst x = k) al = []" by (auto simp: filter_empty_conv)
    then show ?thesis using True a by simp
  next
    case False
    then show ?thesis using Cons a by simp
  qed
qed

lemma sum_update:
  fixes g :: "'v \<Rightarrow> int"
  shows "sum_list (map (\<lambda>x. g (snd x)) (AList.update k v al)) =
     sum_list (map (\<lambda>x. g (snd x)) al) + g v -
     (case map_of al k of None \<Rightarrow> 0 | Some old \<Rightarrow> g old)"
  by (induction al) auto

lemma count_add_prompt:
  "sum_list (map (\<lambda>x. lb_suite_count (snd x)) (add_prompt acc r)) =
     sum_list (map (\<lambda>x. lb_suite_count (snd x)) acc) + 1"
  by (simp add: add_prompt_def Let_def sum_update split: option.splits)

lemma count_foldl_add_prompt:
  "sum_list (map (\<lambda>x. lb_suite_count (snd x)) (foldl add_prompt [] rs)) = int (length rs)"
  by (induction rs rule: rev_induct) (simp_all add: count_add_prompt)

lemma count_all_prompts:
  "sum_list (map (\<lambda>x. le_suite_count (snd x)) (all_prompts_of analyses)) =
     int (length (rows_of analyses))"
proof -
  have "map (\<lambda>x. le_suite_count (snd x)) (all_prompts_of analyses) =
        map (\<lambda>x. lb_suite_count (snd x)) (accumulate_prompts analyses)"
    by (simp add: all_prompts_of_def with_averages_def comp_def)
  then show ?thesis
    by (simp only: accumulate_prompts_rows count_foldl_add_prompt)
qed

lemma entries_counted:
  "list_all (\<lambda>x. 1 \<le> le_suite_count (snd x)) (all_prompts_of analyses)"
proof -
  have "1 \<le> le_suite_count (snd x)" if "x \<in> set (all_prompts_of analyses)" for x
  proof -
    have "(fst x, snd x) \<in> set (all_prompts_of analyses)" using that by simp
    then have "map_of (all_prompts_of analyses) (fst x) = Some (snd x)"
      using distinct_all_prompts by (simp only: map_of_eq_Some_iff)
    then have ne: "rows_with (fst x) analyses \<noteq> []"
      and e: "snd x = entry_of (rows_with (fst x) analyses)"
      by (auto simp: map_of_all_prompts split: if_splits)
    have l: "1 \<le> int (length (rows_with (fst x) analyses))"
      using ne by (cases "rows_with (fst x) analyses") simp_all
    have "le_suite_count (snd x) = int (length (rows_with (fst x) analyses))"
      by (simp add: e entry_of_def)
    then show ?thesis using l by (simp only:)
  qed
  then show ?thesis by (simp add: list_all_iff)
qed

text \<open>
  C4: for every \<^verbatim>\<open>promptId\<close>, the leaderboard has an entry exactly when some row of
  some suite carries that id, and then one entry only (the keys are distinct), built
  from all the rows with that id, each counted once, whatever their names: the sums of
  their pass rates and dup rates, their number as \<^verbatim>\<open>suite_count\<close>, and the averages
  sum / \<^verbatim>\<open>suite_count\<close>. The counts of all entries add up to the number of rows of
  all suites, and every count is at least 1 (so no average divides by zero). For p1 with
  80 in suite A and 60 in suite B the entry has the average 70 and \<^verbatim>\<open>suite_count\<close> 2.
\<close>

theorem leaderboard_entry_per_prompt_id:
  "map_of (all_prompts_of analyses) pid =
     (if rows_with pid analyses = [] then None else Some (entry_of (rows_with pid analyses))) \<and>
   distinct (map fst (all_prompts_of analyses)) \<and>
   sum_list (map (\<lambda>x. le_suite_count (snd x)) (all_prompts_of analyses)) =
     int (length (rows_of analyses)) \<and>
   list_all (\<lambda>x. 1 \<le> le_suite_count (snd x)) (all_prompts_of analyses) \<and>
   map ps_passAtNRate (rows_of suites_p1) = [80, 60] \<and>
   map (\<lambda>x. (fst x, avg_pass_rate (snd x), le_suite_count (snd x))) (all_prompts_of suites_p1) =
     [(Some ''p1'', 70, 2)]"
proof (intro conjI)
  show "map_of (all_prompts_of analyses) pid =
     (if rows_with pid analyses = [] then None else Some (entry_of (rows_with pid analyses)))"
    by (rule map_of_all_prompts)
  show "distinct (map fst (all_prompts_of analyses))"
    by (rule distinct_all_prompts)
  show "sum_list (map (\<lambda>x. le_suite_count (snd x)) (all_prompts_of analyses)) =
     int (length (rows_of analyses))"
    by (rule count_all_prompts)
  show "list_all (\<lambda>x. 1 \<le> le_suite_count (snd x)) (all_prompts_of analyses)"
    by (rule entries_counted)
  show "map ps_passAtNRate (rows_of suites_p1) = [80, 60]"
    by code_simp
  show "map (\<lambda>x. (fst x, avg_pass_rate (snd x), le_suite_count (snd x)))
          (all_prompts_of suites_p1) = [(Some ''p1'', 70, 2)]"
    by code_simp
qed

lemma sorted_asc: "sorted_wrt (\<lambda>a b. f a \<le> f b) (py_sorted f xs)"
proof -
  have "sorted (map f (sort_key f xs))" by (rule sorted_sort_key)
  then show ?thesis by (simp add: py_sorted_def sorted_map)
qed

lemma stable_asc: "filter (\<lambda>y. f y = k) (py_sorted f xs) = filter (\<lambda>y. f y = k) xs"
  unfolding py_sorted_def by (rule sort_key_stable)

lemma mset_asc: "mset (py_sorted f xs) = mset xs"
  by (simp add: py_sorted_def)

text \<open>
  C6: \<^verbatim>\<open>best_overall\<close> is the first 5 of a rearrangement of the leaderboard entries that
  is in descending order of the average pass rate, \<^verbatim>\<open>worst_overall\<close> the first 3 of one
  in ascending order; in both rearrangements the entries with any one average \<open>k\<close> stand
  in the order of the leaderboard, which is the order in which the ids are first seen
  by the aggregation loop. In the example p2 averages 90 and p1, p3 average 70, p1
  first seen before p3.
\<close>

theorem best_and_worst_overall:
  "(\<exists>S. best_overall analyses = take 5 S \<and>
        mset S = mset (all_prompts_of analyses) \<and>
        sorted_wrt (\<lambda>a b. avg_pass_rate (snd b) \<le> avg_pass_rate (snd a)) S \<and>
        (\<forall>k. filter (\<lambda>x. avg_pass_rate (snd x) = k) S =
             filter (\<lambda>x. avg_pass_rate (snd x) = k) (all_prompts_of analyses))) \<and>
   (\<exists>S. worst_overall analyses = take 3 S \<and>
        mset S = mset (all_prompts_of analyses) \<and>
        sorted_wrt (\<lambda>a b. avg_pass_rate (snd a) \<le> avg_pass_rate (snd b)) S \<and>
        (\<forall>k. filter (\<lambda>x. avg_pass_rate (snd x) = k) S =
             filter (\<lambda>x. avg_pass_rate (snd x) = k) (all_prompts_of analyses))) \<and>
   map fst (all_prompts_of analyses) = first_seen (map ps_promptId (rows_of analyses)) \<and>
   map (\<lambda>x. (fst x, avg_pass_rate (snd x))) (all_prompts_of suites_ties) =
     [(Some ''p2'', 90), (Some ''p1'', 70), (Some ''p3'', 70)] \<and>
   map fst (best_overall suites_ties) = [Some ''p2'', Some ''p1'', Some ''p3''] \<and>
   map fst (worst_overall suites_ties) = [Some ''p1'', Some ''p3'', Some ''p2'']"
proof (intro conjI)
  show "\<exists>S. best_overall analyses = take 5 S \<and>
        mset S = mset (all_prompts_of analyses) \<and>
        sorted_wrt (\<lambda>a b. avg_pass_rate (snd b) \<le> avg_pass_rate (snd a)) S \<and>
        (\<forall>k. filter (\<lambda>x. avg_pass_rate (snd x) = k) S =
             filter (\<lambda>x. avg_pass_rate (snd x) = k) (all_prompts_of analyses))"
    unfolding best_overall_def
    by (rule exI [of _ "py_sorted_reverse (\<lambda>x. avg_pass_rate (snd x)) (all_prompts_of analyses)"])
       (simp only: mset_desc sorted_desc stable_desc simp_thms)
  show "\<exists>S. worst_overall analyses = take 3 S \<and>
        mset S = mset (all_prompts_of analyses) \<and>
        sorted_wrt (\<lambda>a b. avg_pass_rate (snd a) \<le> avg_pass_rate (snd b)) S \<and>
        (\<forall>k. filter (\<lambda>x. avg_pass_rate (snd x) = k) S =
             filter (\<lambda>x. avg_pass_rate (snd x) = k) (all_prompts_of analyses))"
    unfolding worst_overall_def
    by (rule exI [of _ "py_sorted (\<lambda>x. avg_pass_rate (snd x)) (all_prompts_of analyses)"])
       (simp only: mset_asc sorted_asc stable_asc simp_thms)
  show "map fst (all_prompts_of analyses) = first_seen (map ps_promptId (rows_of analyses))"
    by (rule keys_all_prompts)
  show "map (\<lambda>x. (fst x, avg_pass_rate (snd x))) (all_prompts_of suites_ties) =
     [(Some ''p2'', 90), (Some ''p1'', 70), (Some ''p3'', 70)]"
    by code_simp
  show "map fst (best_overall suites_ties) = [Some ''p2'', Some ''p1'', Some ''p3'']"
    by code_simp
  show "map fst (worst_overall suites_ties) = [Some ''p1'', Some ''p3'', Some ''p2'']"
    by code_simp
qed

lemma prompt_row_id: "ps_promptId (prompt_row agg) = promptId agg"
  by (simp add: prompt_row_def Let_def)

lemma filter_all_prompts:
  "filter (\<lambda>x. fst x = pid) (all_prompts_of analyses) =
     (if rows_with pid analyses = [] then [] else [(pid, entry_of (rows_with pid analyses))])"
  by (simp add: filter_key_distinct [OF distinct_all_prompts] map_of_all_prompts)

text \<open>
  C10: a row of \<^verbatim>\<open>aggregateResults\<close> without a \<^verbatim>\<open>promptId\<close> gets the id \<^verbatim>\<open>None\<close> in the
  analysis (the analysis has as many rows of each id as the report). The leaderboard
  has, as soon as any suite has such a row, exactly one entry with the key \<^verbatim>\<open>None\<close>: it
  carries the name of the first id-less row the loop visits, and its \<^verbatim>\<open>suite_count\<close> is
  the number of id-less rows of all suites. In the example two unrelated id-less prompts
  alpha and beta of two suites are one entry named alpha with \<^verbatim>\<open>suite_count\<close> 2.
\<close>

theorem idless_rows_share_one_entry:
  "ps_promptId (prompt_row agg) = promptId agg \<and>
   mset (map ps_promptId (prompt_analysis (analyze_suite sid report))) =
     mset (map promptId (get_or [] (aggregateResults report))) \<and>
   filter (\<lambda>x. fst x = None) (all_prompts_of analyses) =
     (if rows_with None analyses = [] then []
      else [(None, entry_of (rows_with None analyses))]) \<and>
   le_name (entry_of (rows_with None analyses)) = ps_promptName (hd (rows_with None analyses)) \<and>
   le_suite_count (entry_of (rows_with None analyses)) = int (length (rows_with None analyses)) \<and>
   map (\<lambda>x. (fst x, le_name (snd x), le_suite_count (snd x), avg_pass_rate (snd x)))
     (all_prompts_of suites_idless) = [(None, Some ''alpha'', 2, 70)]"
proof (intro conjI)
  show "ps_promptId (prompt_row agg) = promptId agg"
    by (rule prompt_row_id)
  have "mset (map ps_promptId (prompt_analysis (analyze_suite sid report))) =
        image_mset ps_promptId (mset (map prompt_row (get_or [] (aggregateResults report))))"
    by (simp only: prompt_analysis_eq mset_map mset_desc)
  also have "\<dots> = mset (map promptId (get_or [] (aggregateResults report)))"
    by (simp add: prompt_row_id image_mset.compositionality comp_def)
  finally show "mset (map ps_promptId (prompt_analysis (analyze_suite sid report))) =
     mset (map promptId (get_or [] (aggregateResults report)))" .
  show "filter (\<lambda>x. fst x = None) (all_prompts_of analyses) =
     (if rows_with None analyses = [] then []
      else [(None, entry_of (rows_with None analyses))])"
    by (rule filter_all_prompts)
  show "le_name (entry_of (rows_with None analyses)) =
          ps_promptName (hd (rows_with None analyses))"
    by (simp add: entry_of_def)
  show "le_suite_count (entry_of (rows_with None analyses)) =
          int (length (rows_with None analyses))"
    by (simp add: entry_of_def)
  show "map (\<lambda>x. (fst x, le_name (snd x), le_suite_count (snd x), avg_pass_rate (snd x)))
     (all_prompts_of suites_idless) = [(None, Some ''alpha'', 2, 70)]"
    by code_simp
qed

subsection \<open>Coordinator scenarios\<close>




lemma keys_group_run:
  "map fst (group_run acc r) =
     (if get_or ''unknown'' (scenarioId r) \<in> set (map fst acc) then map fst acc
      else map fst acc @ [get_or ''unknown'' (scenarioId r)])"
  by (simp add: group_run_def Let_def update_keys)

lemma keys_by_scenario:
  "map fst (by_scenario_of rs) = first_seen (map (\<lambda>r. get_or ''unknown'' (scenarioId r)) rs)"
  unfolding by_scenario_of_def
proof (induction rs rule: rev_induct)
  case Nil
  show ?case by (simp add: first_seen_def)
next
  case (snoc r rs)
  show ?case
    by (simp only: foldl_append foldl.simps keys_group_run map_append list.map
          first_seen_snoc snoc set_first_seen)
qed






subsection \<open>Where rates are rescaled\<close>









subsection \<open>The run over the report files\<close>

lemma analyze_step_eq:
  "analyze_step st f =
     (fst st @ (case outcome_of f of Inl e \<Rightarrow> [] | Inr a \<Rightarrow> [a]), snd st @ step_prints f)"
  by (simp add: analyze_step_def outcome_of_def step_prints_def Let_def split: sum.splits)

lemma foldl_analyze_step:
  "foldl analyze_step st files = (fst st @ analysed files, snd st @ concat (map step_prints files))"
proof (induction files arbitrary: st)
  case Nil
  show ?case by (simp add: analysed_def)
next
  case (Cons f files)
  have "foldl analyze_step st (f # files) = foldl analyze_step (analyze_step st f) files"
    by simp
  also have "\<dots> = (fst (analyze_step st f) @ analysed files,
                     snd (analyze_step st f) @ concat (map step_prints files))"
    by (rule Cons.IH)
  also have "\<dots> = (fst st @ analysed (f # files),
                     snd st @ concat (map step_prints (f # files)))"
    by (simp add: analyze_step_eq [of st f] analysed_def)
  finally show ?case .
qed

lemma main_after_checks:
  assumes "2 \<le> argc cmd" and "dir_exists cmd" and "report_files cmd \<noteq> []"
  shows "main cmd =
     (case generate_markdown_report (clock cmd) (results_dir cmd) (analysed (report_files cmd)) of
        Inl e \<Rightarrow> \<lparr>console = loop_prints (report_files cmd), written = None,
                  exit_status = Uncaught e\<rparr>
      | Inr md \<Rightarrow>
          \<lparr>console = loop_prints (report_files cmd) @
                     final_prints (output_path cmd) (analysed (report_files cmd)),
           written = Some (md @ coordinator_appendix (coord_files cmd)),
           exit_status = Exit 0\<rparr>)"
  using assms
  by (simp add: main_def Let_def foldl_analyze_step loop_prints_def split: sum.splits)

lemma collect_length: "collect f xs = Inr ys \<Longrightarrow> length ys = length xs"
  by (induction xs arbitrary: ys) (auto split: sum.splits)

lemma collect_all2: "collect f xs = Inr ys \<Longrightarrow> list_all2 (\<lambda>x y. f x = Inr y) xs ys"
  by (induction xs arbitrary: ys) (auto split: sum.splits)

lemma suite_section_head:
  assumes "suite_section a = Inr sec"
  shows "take 3 sec = [''### '' @ suite_name a, '''', ''**Suite ID:** `'' @ suite_id a @ ''`'']"
  using assms
  by (auto simp: suite_section_def metrics_lines_def split: sum.splits)

lemma sections_all2:
  assumes "collect suite_section analyses = Inr sections"
  shows "list_all2
           (\<lambda>a sec. suite_section a = Inr sec \<and>
                     take 3 sec = [''### '' @ suite_name a, '''',
                                   ''**Suite ID:** `'' @ suite_id a @ ''`''])
           analyses sections"
proof -
  have "list_all2 (\<lambda>a sec. suite_section a = Inr sec) analyses sections"
    using assms by (rule collect_all2)
  then show ?thesis
    by (rule list_all2_mono) (simp add: suite_section_head)
qed

lemma generate_of_sections:
  assumes "collect suite_section analyses = Inr sections"
  shows "generate_markdown_report now dir analyses =
     Inr (join nl (header_lines now @ summary_lines analyses @ map comparison_row analyses @
                   ['''', ''---'', '''', ''## Detailed Suite Analysis'', ''''] @
                   concat sections @ recommendation_lines analyses))"
  using assms by (simp add: generate_markdown_report_def report_lines_def)

lemma generate_of_failure:
  assumes "collect suite_section analyses = Inl e"
  shows "generate_markdown_report now dir analyses = Inl e"
  using assms by (simp add: generate_markdown_report_def report_lines_def)

lemma generate_of_lines:
  "generate_markdown_report now dir analyses =
     (case report_lines now analyses of Inl e \<Rightarrow> Inl e | Inr ls \<Rightarrow> Inr (join nl ls))"
  by (simp add: generate_markdown_report_def)

lemma main_of_sections:
  assumes "2 \<le> argc cmd" and "dir_exists cmd" and "report_files cmd \<noteq> []"
    and "collect suite_section (analysed (report_files cmd)) = Inr sections"
  shows "main cmd =
     \<lparr>console = loop_prints (report_files cmd) @
                final_prints (output_path cmd) (analysed (report_files cmd)),
      written = Some (join nl (header_lines (clock cmd) @
                               summary_lines (analysed (report_files cmd)) @
                               map comparison_row (analysed (report_files cmd)) @
                               ['''', ''---'', '''', ''## Detailed Suite Analysis'', ''''] @
                               concat sections @
                               recommendation_lines (analysed (report_files cmd))) @
                      coordinator_appendix (coord_files cmd)),
      exit_status = Exit 0\<rparr>"
  by (simp only: main_after_checks [OF assms(1-3)] generate_of_sections [OF assms(4)]
        sum.case)

lemma run_with_fields:
  "argc (run_with files) = 2"
  "dir_exists (run_with files)"
  "report_files (run_with files) = files"
  "coord_files (run_with files) = []"
  "clock (run_with files) = ''2025-01-01 12:00:00''"
  "results_dir (run_with files) = ''results''"
  "output_path (run_with files) = ''results/01_DETAILED_ANALYSIS.md''"
  by (simp_all add: run_with_def)

lemma analysed_three_two: "analysed three_files = analysed two_files"
  by code_simp

lemma sections_three: "collect suite_section (analysed three_files) = Inr three_sections"
  by code_simp

lemma main_three:
  "main (run_with three_files) =
     \<lparr>console = loop_prints three_files @
                final_prints ''results/01_DETAILED_ANALYSIS.md'' (analysed three_files),
      written = Some (join nl (header_lines ''2025-01-01 12:00:00'' @
                               summary_lines (analysed three_files) @
                               map comparison_row (analysed three_files) @
                               ['''', ''---'', '''', ''## Detailed Suite Analysis'', ''''] @
                               concat three_sections @
                               recommendation_lines (analysed three_files)) @
                      coordinator_appendix []),
      exit_status = Exit 0\<rparr>"
proof -
  have h1: "2 \<le> argc (run_with three_files)" by (simp add: run_with_fields)
  have h2: "dir_exists (run_with three_files)" by (simp add: run_with_fields)
  have h3: "report_files (run_with three_files) \<noteq> []"
    by (simp add: run_with_fields three_files_def)
  have h4: "collect suite_section (analysed (report_files (run_with three_files))) =
            Inr three_sections"
    by (simp only: run_with_fields sections_three)
  show ?thesis
    using main_of_sections [OF h1 h2 h3 h4] by (simp only: run_with_fields)
qed

lemma main_two:
  "main (run_with two_files) =
     \<lparr>console = loop_prints two_files @
                final_prints ''results/01_DETAILED_ANALYSIS.md'' (analysed two_files),
      written = Some (join nl (header_lines ''2025-01-01 12:00:00'' @
                               summary_lines (analysed two_files) @
                               map comparison_row (analysed two_files) @
                               ['''', ''---'', '''', ''## Detailed Suite Analysis'', ''''] @
                               concat three_sections @
                               recommendation_lines (analysed two_files)) @
                      coordinator_appendix []),
      exit_status = Exit 0\<rparr>"
proof -
  have h1: "2 \<le> argc (run_with two_files)" by (simp add: run_with_fields)
  have h2: "dir_exists (run_with two_files)" by (simp add: run_with_fields)
  have h3: "report_files (run_with two_files) \<noteq> []"
    by (simp add: run_with_fields two_files_def)
  have h4: "collect suite_section (analysed (report_files (run_with two_files))) =
            Inr three_sections"
    by (simp only: run_with_fields sections_three analysed_three_two [symmetric])
  show ?thesis
    using main_of_sections [OF h1 h2 h3 h4] by (simp only: run_with_fields)
qed

text \<open>
  C3, as stated, fails: the error of a failing report is printed on the console and
  nowhere in the document. With three report files of which the second is not JSON, the
  run ends with exit code 0 and the document has the sections of the two other suites,
  but the document is, byte for byte, the document of the run on those two files alone:
  no line of it mentions an error or the failing suite. The error line is on the
  console.
\<close>

theorem error_is_printed_not_written:
  "exit_status (main (run_with three_files)) = Exit 0 \<and>
   written (main (run_with three_files)) = written (main (run_with two_files)) \<and>
   written (main (run_with three_files)) =
     (case report_lines ''2025-01-01 12:00:00'' (analysed three_files) of
        Inl e \<Rightarrow> None | Inr ls \<Rightarrow> Some (join nl ls)) \<and>
   map_sum id (filter (mentions ''rror''))
     (report_lines ''2025-01-01 12:00:00'' (analysed three_files)) = Inr [] \<and>
   map_sum id (filter (mentions ''beta''))
     (report_lines ''2025-01-01 12:00:00'' (analysed three_files)) = Inr [] \<and>
   map_sum id (filter (mentions ''**Suite ID:**''))
     (report_lines ''2025-01-01 12:00:00'' (analysed three_files)) =
     Inr [''**Suite ID:** `alpha`'', ''**Suite ID:** `gamma`''] \<and>
   filter (mentions ''rror'') (console (main (run_with three_files))) =
     [''  '' @ cross_mark @ '' Error: Expecting value: line 1 column 1 (char 0)'']"
proof (intro conjI)
  show "exit_status (main (run_with three_files)) = Exit 0"
    by (simp only: main_three run.simps)
  show "written (main (run_with three_files)) = written (main (run_with two_files))"
    by (simp only: main_three main_two run.simps analysed_three_two)
  have "report_lines ''2025-01-01 12:00:00'' (analysed three_files) =
          Inr (header_lines ''2025-01-01 12:00:00'' @
               summary_lines (analysed three_files) @
               map comparison_row (analysed three_files) @
               ['''', ''---'', '''', ''## Detailed Suite Analysis'', ''''] @
               concat three_sections @
               recommendation_lines (analysed three_files))"
    by (simp only: report_lines_def sections_three sum.case)
  then show "written (main (run_with three_files)) =
     (case report_lines ''2025-01-01 12:00:00'' (analysed three_files) of
        Inl e \<Rightarrow> None | Inr ls \<Rightarrow> Some (join nl ls))"
    by (simp add: main_three coordinator_appendix_def)
  show "map_sum id (filter (mentions ''rror''))
     (report_lines ''2025-01-01 12:00:00'' (analysed three_files)) = Inr []"
    by code_simp
  show "map_sum id (filter (mentions ''beta''))
     (report_lines ''2025-01-01 12:00:00'' (analysed three_files)) = Inr []"
    by code_simp
  show "map_sum id (filter (mentions ''**Suite ID:**''))
     (report_lines ''2025-01-01 12:00:00'' (analysed three_files)) =
     Inr [''**Suite ID:** `alpha`'', ''**Suite ID:** `gamma`'']"
    by code_simp
  have "filter (mentions ''rror'')
          (loop_prints three_files @
           final_prints ''results/01_DETAILED_ANALYSIS.md'' (analysed three_files)) =
        [''  '' @ cross_mark @ '' Error: Expecting value: line 1 column 1 (char 0)'']"
    by code_simp
  then show "filter (mentions ''rror'') (console (main (run_with three_files))) =
     [''  '' @ cross_mark @ '' Error: Expecting value: line 1 column 1 (char 0)'']"
    by (simp only: main_three run.simps)
qed

text \<open>
  C3, amended. Take a run that passes the checks of the command line (a directory
  argument, the directory exists, at least one report file) and whose rendering of the
  successfully analysed suites does not raise. Whatever reports fail to load or to
  analyse, the run ends with exit code 0; the document is the rendering of exactly the
  successfully analysed suites, in input order, with one section for each (headed by the
  suite's name and id), followed by the coordinator appendix; and the console shows,
  for every report file, its \<^verbatim>\<open>Analyzing\<close> line followed by its success rate or by the
  error it raised. The error indicator is on the console, not in the document.
\<close>

theorem failing_reports_are_skipped:
  assumes "2 \<le> argc cmd" and "dir_exists cmd" and "report_files cmd \<noteq> []"
    and "collect suite_section (analysed (report_files cmd)) = Inr sections"
  shows "exit_status (main cmd) = Exit 0 \<and>
     written (main cmd) =
       Some (join nl (header_lines (clock cmd) @
                      summary_lines (analysed (report_files cmd)) @
                      map comparison_row (analysed (report_files cmd)) @
                      ['''', ''---'', '''', ''## Detailed Suite Analysis'', ''''] @
                      concat sections @
                      recommendation_lines (analysed (report_files cmd))) @
             coordinator_appendix (coord_files cmd)) \<and>
     list_all2
       (\<lambda>a sec. suite_section a = Inr sec \<and>
                 take 3 sec = [''### '' @ suite_name a, '''',
                               ''**Suite ID:** `'' @ suite_id a @ ''`''])
       (analysed (report_files cmd)) sections \<and>
     console (main cmd) =
       loop_prints (report_files cmd) @
       final_prints (output_path cmd) (analysed (report_files cmd))"
proof (intro conjI)
  note m = main_of_sections [OF assms]
  show "exit_status (main cmd) = Exit 0"
    by (simp only: m run.simps)
  show "written (main cmd) =
       Some (join nl (header_lines (clock cmd) @
                      summary_lines (analysed (report_files cmd)) @
                      map comparison_row (analysed (report_files cmd)) @
                      ['''', ''---'', '''', ''## Detailed Suite Analysis'', ''''] @
                      concat sections @
                      recommendation_lines (analysed (report_files cmd))) @
             coordinator_appendix (coord_files cmd))"
    by (simp only: m run.simps)
  show "list_all2
       (\<lambda>a sec. suite_section a = Inr sec \<and>
                 take 3 sec = [''### '' @ suite_name a, '''',
                               ''**Suite ID:** `'' @ suite_id a @ ''`''])
       (analysed (report_files cmd)) sections"
    using assms(4) by (rule sections_all2)
  show "console (main cmd) =
       loop_prints (report_files cmd) @
       final_prints (output_path cmd) (analysed (report_files cmd))"
    by (simp only: m run.simps)
qed

theorem failing_reports_are_skipped_witness:
  "2 \<le> argc (run_with three_files) \<and>
   dir_exists (run_with three_files) \<and>
   report_files (run_with three_files) \<noteq> [] \<and>
   collect suite_section (analysed (report_files (run_with three_files))) = Inr three_sections \<and>
   map suite_id (analysed (report_files (run_with three_files))) = [''alpha'', ''gamma''] \<and>
   length three_sections = 2 \<and>
   exit_status (main (run_with three_files)) = Exit 0"
proof -
  have h1: "2 \<le> argc (run_with three_files)" by (simp add: run_with_fields)
  have h2: "dir_exists (run_with three_files)" by (simp add: run_with_fields)
  have h3: "report_files (run_with three_files) \<noteq> []"
    by (simp add: run_with_fields three_files_def)
  have h4: "collect suite_section (analysed (report_files (run_with three_files))) =
            Inr three_sections"
    by (simp only: run_with_fields sections_three)
  have ids: "map suite_id (analysed three_files) = [''alpha'', ''gamma'']"
    by code_simp
  note t = failing_reports_are_skipped [OF h1 h2 h3 h4]
  have "length (analysed (report_files (run_with three_files))) = length three_sections"
    using t by (blast dest: list_all2_lengthD)
  moreover have "length (analysed (report_files (run_with three_files))) = 2"
    using arg_cong [OF ids, of length] by (simp add: run_with_fields)
  ultimately have l: "length three_sections = 2" by simp
  have i: "map suite_id (analysed (report_files (run_with three_files))) = [''alpha'', ''gamma'']"
    using ids by (simp only: run_with_fields)
  show ?thesis using h1 h2 h3 h4 i l t by blast
qed

subsection \<open>The timestamp\<close>

lemma join_header:
  "join nl (header_lines now @ rest) =
     ''# Detailed AI Prompt Test Analysis'' @ nl @ nl @ ''**Generated:** '' @ now @ nl @
     join nl (['''', ''---'', '''', ''## Executive Summary'', ''''] @ rest)"
  by (simp add: header_lines_def)

text \<open>
  C9: the renderer is a function of its inputs and of the clock reading, and the clock
  reading reaches the document in one place. For given analyses and coordinator files
  there is one \<open>rest\<close> (an exception, or a text) such that, whatever the clock reads,
  rendering raises that exception or returns the title line, an empty line, the line
  \<^verbatim>\<open>**Generated:** \<close> followed by the clock reading, a line break and that text. The
  clock reading is a \<^verbatim>\<open>strftime('%Y-%m-%d %H:%M:%S')\<close> string, which has no line break,
  so two documents for the same inputs differ in their third line at most.
\<close>

theorem timestamp_on_one_line:
  "\<exists>rest. \<forall>now.
     map_sum id (\<lambda>md. md @ coordinator_appendix files)
       (generate_markdown_report now dir analyses) =
     map_sum id
       (\<lambda>body. ''# Detailed AI Prompt Test Analysis'' @ nl @ nl @
                ''**Generated:** '' @ now @ nl @ body)
       rest"
proof (cases "collect suite_section analyses")
  case (Inl e)
  show ?thesis
    by (rule exI [of _ "Inl e"]) (simp add: generate_of_failure [OF Inl])
next
  case (Inr sections)
  show ?thesis
    by (rule exI [of _ "Inr (join nl (['''', ''---'', '''', ''## Executive Summary'', ''''] @
                  summary_lines analyses @ map comparison_row analyses @
                  ['''', ''---'', '''', ''## Detailed Suite Analysis'', ''''] @
                  concat sections @ recommendation_lines analyses) @
                coordinator_appendix files)"])
       (simp only: generate_of_sections [OF Inr] join_header map_sum.simps id_apply
          append_assoc simp_thms)
qed

end
